theory Spec2Isabelle
  imports Complex_Main
begin

section \<open>A model of sccache.py\<close>

text \<open>
  The wrapper is a Python 2 script. Its own code (argument scanning, key derivation,
  the \<open>CacheData\<close> and \<open>Bucket\<close> classes, \<open>cache_store\<close> and \<open>main\<close>) is
  translated function by function. What it calls in the standard library and in the
  operating system is not part of the script. The files are a map from paths to
  contents and times; \<open>os.path.splitext\<close> is translated from the library; every other
  call is an oracle, a field of the record \<open>sys\<close>, that returns what the call returns or
  tells which exception it raises. A function that can raise returns a sum, the
  exception on the left.
  The \<open>Timer\<close> class only measures wall-clock time for the text between brackets in
  the diagnostic lines; it never raises and never decides a branch, and is left out,
  together with that text.
\<close>

subsection \<open>Values, exceptions, files\<close>

type_synonym bytes = string

datatype exn =
    StopIteration
  | NameError
  | AssertionError
  | IndexError
  | TypeError
  | OSError
  | IOError
  | CalledProcessError int
  | NoBucketName
  | S3ResponseError int
  | ZlibError
  | OtherError

text \<open>\<open>e.returncode\<close> of a \<open>CalledProcessError\<close>; no other exception is caught by
  \<open>except subprocess.CalledProcessError\<close>.\<close>

fun returncode :: "exn \<Rightarrow> int option" where
  "returncode (CalledProcessError rc) = Some rc"
| "returncode StopIteration = None"
| "returncode NameError = None"
| "returncode AssertionError = None"
| "returncode IndexError = None"
| "returncode TypeError = None"
| "returncode OSError = None"
| "returncode IOError = None"
| "returncode NoBucketName = None"
| "returncode (S3ResponseError _) = None"
| "returncode ZlibError = None"
| "returncode OtherError = None"

text \<open>A file system maps each existing path to its content and its last-modified time
  (a Python float).\<close>

record node =
  content :: bytes
  mtime :: real

type_synonym fs = "string \<rightharpoonup> node"

text \<open>The answer of \<open>urllib2.urlopen(url).read()\<close>.\<close>

datatype http_result = Body bytes | HTTPError int | URLError

text \<open>The answer of the boto calls in \<open>Bucket.put\<close>.\<close>

datatype put_result = PutOk | PutS3Error int | PutError

record sys =
  which :: "string \<Rightarrow> string option"
  environ :: "string \<rightharpoonup> string"
  float_str :: "real \<Rightarrow> string"
  sha1_hex :: "bytes \<Rightarrow> string"
  gzip :: "bytes \<Rightarrow> bytes"
  gunzip :: "bytes \<Rightarrow> bytes option"
  gunzip_failure :: "bytes \<Rightarrow> exn \<times> bytes"
  can_open_wb :: "fs \<Rightarrow> string \<Rightarrow> bool"
  exec :: "string list \<Rightarrow> bytes option \<Rightarrow> fs \<Rightarrow> exn + (int \<times> bytes \<times> fs)"
  urlopen :: "string \<Rightarrow> http_result"
  s3_put :: "string \<Rightarrow> string \<Rightarrow> bytes \<Rightarrow> put_result"

text \<open>
  \<^item> \<open>which\<close>: \<open>which.which(program)\<close>, \<open>None\<close> for \<open>whichError\<close>;
  \<^item> \<open>environ\<close>: \<open>os.environ\<close>;
  \<^item> \<open>float_str\<close>: \<open>str\<close> of a float; \<open>sha1_hex\<close>: the hexadecimal SHA-1 digest of
    all the bytes fed to a \<open>hashlib\<close> object;
  \<^item> \<open>gzip\<close>: what \<open>gzip.GzipFile(mode='w', compresslevel=6)\<close> produces;
    \<open>gunzip\<close>: what reading a \<open>GzipFile\<close> to its end yields, \<open>None\<close> when the
    reader raises; \<open>gunzip_failure\<close>: for such a stream, the exception raised
    (\<open>IOError\<close> for a bad header or checksum, \<open>zlib.error\<close> for a bad deflate block)
    and the bytes the reader has handed over before raising;
  \<^item> \<open>can_open_wb\<close>: whether \<open>open(path, 'wb')\<close> succeeds (it raises \<open>IOError\<close> for
    a missing directory, a directory in place of the file, or a refused permission);
  \<^item> \<open>exec\<close>: running a program with an argument vector, a standard input (\<open>None\<close>
    when inherited) and a file system, giving its exit code, its standard output and the
    file system it leaves, or the \<open>OSError\<close> of a program that cannot be started;
  \<^item> \<open>urlopen\<close> and \<open>s3_put\<close>: the remote store.
\<close>

subsection \<open>Recognized source kinds\<close>

definition FILE_TYPES :: "string \<rightharpoonup> string" where
  "FILE_TYPES = map_of
     [(''.c'', ''cpp-output''),
      (''.cc'', ''c++-cpp-output''),
      (''.cpp'', ''c++-cpp-output''),
      (''.cxx'', ''c++-cpp-outout'')]"

subsection \<open>os.path.splitext\<close>

text \<open>Python 2.7's \<open>genericpath._splitext(p, '/', None, '.')\<close>. \<open>rfind\<close> gives the
  highest index of the character or \<open>-1\<close>.\<close>

primrec rfind_from :: "char \<Rightarrow> string \<Rightarrow> int \<Rightarrow> int \<Rightarrow> int" where
  "rfind_from c [] i found = found"
| "rfind_from c (x # xs) i found = rfind_from c xs (i + 1) (if x = c then i else found)"

definition rfind :: "string \<Rightarrow> char \<Rightarrow> int" where
  "rfind p c = rfind_from c p 0 (- 1)"

text \<open>The loop \<open>while filenameIndex < dotIndex\<close> that skips leading dots: it returns
  \<open>True\<close> when it finds a character other than a dot before \<open>dotIndex\<close>.\<close>

function skip_dots :: "string \<Rightarrow> int \<Rightarrow> int \<Rightarrow> bool" where
  "skip_dots p filenameIndex dotIndex =
     (if filenameIndex < dotIndex
      then (if p ! nat filenameIndex \<noteq> CHR ''.'' then True
            else skip_dots p (filenameIndex + 1) dotIndex)
      else False)"
  by pat_completeness auto
termination
  by (relation "measure (\<lambda>(p, i, d). nat (d - i))") auto

definition splitext :: "string \<Rightarrow> string \<times> string" where
  "splitext p =
     (let sepIndex = rfind p CHR ''/'';
          dotIndex = rfind p CHR ''.''
      in if dotIndex > sepIndex \<and> skip_dots p (sepIndex + 1) dotIndex
         then (take (nat dotIndex) p, drop (nat dotIndex) p)
         else (p, []))"

subsection \<open>parse_arguments\<close>

text \<open>The flags of the long tuple in \<open>parse_arguments\<close>: each is copied to the reduced
  arguments together with the token that follows it.\<close>

definition value_flags :: "string list" where
  "value_flags =
     [''--param'', ''-A'', ''-D'', ''-F'', ''-G'', ''-I'', ''-L'', ''-MF'',
      ''-MQ'', ''-U'', ''-V'', ''-Xassembler'', ''-Xlinker'',
      ''-Xpreprocessor'', ''-aux-info'', ''-b'', ''-idirafter'',
      ''-iframework'', ''-imacros'', ''-imultilib'', ''-include'',
      ''-install_name'', ''-iprefix'', ''-iquote'', ''-isysroot'',
      ''-isystem'', ''-iwithprefix'', ''-iwithprefixbefore'',
      ''-u'']"

definition dep_flags :: "string list" where
  "dep_flags = [''-M'', ''-MM'', ''-MD'', ''-MMD'']"

text \<open>The local variables of the loop.\<close>

record scan_state =
  reduced_args :: "string list"
  input :: "string list"
  output_arg :: "string option"
  target :: "string option"
  need_explicit_target :: bool
  compilation :: bool

definition scan_init :: scan_state where
  "scan_init = \<lparr>reduced_args = [], input = [], output_arg = None, target = None,
                need_explicit_target = False, compilation = False\<rparr>"

text \<open>The test \<open>arg.startswith('-') and len(arg) != 1\<close>.\<close>

definition flag_like :: "string \<Rightarrow> bool" where
  "flag_like arg = (take 1 arg = ''-'' \<and> length arg \<noteq> 1)"

text \<open>
  The loop \<open>for arg in iter_args\<close>. The body takes the value of a flag with
  \<open>iter_args.next()\<close>, which raises \<open>StopIteration\<close> when no token is left; raised in
  the body, the exception leaves the loop and the function. \<open>Inr None\<close> is the
  \<open>return None\<close> at \<open>-fprofile-use\<close>.
\<close>

fun scan :: "scan_state \<Rightarrow> string list \<Rightarrow> exn + scan_state option" where
  "scan s [] = Inr (Some s)"
| "scan s (arg # rest) =
     (if arg = ''-c'' then scan (s\<lparr>compilation := True\<rparr>) rest
      else if arg = ''-o'' then
        (case rest of
           [] \<Rightarrow> Inl StopIteration
         | v # rest' \<Rightarrow> scan (s\<lparr>output_arg := Some v\<rparr>) rest')
      else if arg \<in> set value_flags then
        (case rest of
           [] \<Rightarrow> Inl StopIteration
         | v # rest' \<Rightarrow> scan (s\<lparr>reduced_args := reduced_args s @ [arg, v]\<rparr>) rest')
      else if arg = ''-MT'' then
        (case rest of
           [] \<Rightarrow> Inl StopIteration
         | v # rest' \<Rightarrow> scan (s\<lparr>target := Some v\<rparr>) rest')
      else if arg = ''-fprofile-use'' then Inr None
      else
        (let s1 = (if arg \<in> set dep_flags then s\<lparr>need_explicit_target := True\<rparr> else s)
         in if flag_like arg
            then scan (s1\<lparr>reduced_args := reduced_args s1 @ [arg]\<rparr>) rest
            else scan (s1\<lparr>input := input s1 @ [arg]\<rparr>) rest))"

text \<open>Truth of an optional string: \<open>None\<close> and the empty string are false.\<close>

fun truthy :: "string option \<Rightarrow> bool" where
  "truthy None = False"
| "truthy (Some v) = (v \<noteq> [])"

text \<open>\<open>target or output\<close>.\<close>

fun or_else :: "string option \<Rightarrow> string \<Rightarrow> string" where
  "or_else None d = d"
| "or_else (Some v) d = (if v \<noteq> [] then v else d)"

text \<open>\<open>os.path.exists(program)\<close>, then \<open>which.which(program)\<close>; \<open>None\<close> is the
  \<open>return None\<close> under \<open>except which.whichError\<close>.\<close>

definition resolve :: "sys \<Rightarrow> fs \<Rightarrow> string \<Rightarrow> string option" where
  "resolve sy st program = (if program \<in> dom st then Some program else which sy program)"

text \<open>The tuple returned by \<open>parse_arguments\<close>:
  \<open>(program, input[0], FILE_TYPES[typ], output, args, mt, reduced_args)\<close>.\<close>

type_synonym invocation =
  "string \<times> string \<times> string \<times> string \<times> string list \<times> string list \<times> string list"

text \<open>The part of \<open>parse_arguments\<close> after the loop.\<close>

definition classify :: "string \<Rightarrow> string list \<Rightarrow> scan_state \<Rightarrow> invocation option" where
  "classify program args s =
     (case output_arg s of
        None \<Rightarrow> None
      | Some out \<Rightarrow>
          if \<not> compilation s \<or> out = [] \<or> length (input s) \<noteq> 1 \<or> hd (input s) = ''-''
          then None
          else
            (case FILE_TYPES (snd (splitext (hd (input s)))) of
               None \<Rightarrow> None
             | Some file_type \<Rightarrow>
                 let mt = (if need_explicit_target s
                           then [''-MT'', or_else (target s) out]
                           else [])
                 in Some (program, hd (input s), file_type, out, args, mt, reduced_args s)))"

definition parse_arguments :: "sys \<Rightarrow> fs \<Rightarrow> string list \<Rightarrow> exn + invocation option" where
  "parse_arguments sy st command =
     (case command of
        [] \<Rightarrow> Inl IndexError
      | program0 # args \<Rightarrow>
          (case resolve sy st program0 of
             None \<Rightarrow> Inr None
           | Some program \<Rightarrow>
               (case scan scan_init args of
                  Inl e \<Rightarrow> Inl e
                | Inr None \<Rightarrow> Inr None
                | Inr (Some s) \<Rightarrow> Inr (classify program args s))))"


subsection \<open>hash_key\<close>

text \<open>\<open>os.path.getmtime\<close> and \<open>os.path.getsize\<close> raise \<open>OSError\<close> for a path that does
  not exist.\<close>

definition getmtime :: "fs \<Rightarrow> string \<Rightarrow> exn + real" where
  "getmtime st p = (case st p of None \<Rightarrow> Inl OSError | Some f \<Rightarrow> Inr (mtime f))"

definition getsize :: "fs \<Rightarrow> string \<Rightarrow> exn + nat" where
  "getsize st p = (case st p of None \<Rightarrow> Inl OSError | Some f \<Rightarrow> Inr (length (content f)))"

text \<open>\<open>str\<close> of a non-negative integer: its decimal digits.\<close>

fun str_nat :: "nat \<Rightarrow> string" where
  "str_nat n =
     (if n < 10 then [''0123456789'' ! n]
      else str_nat (n div 10) @ [''0123456789'' ! (n mod 10)])"

text \<open>\<open>sep.join(xs)\<close>. Joining a string, as in \<open>' '.join('args')\<close>, joins its
  characters.\<close>

fun join :: "string \<Rightarrow> string list \<Rightarrow> string" where
  "join sep [] = []"
| "join sep [x] = x"
| "join sep (x # y # ys) = x @ sep @ join sep (y # ys)"

definition chars_of :: "string \<Rightarrow> string list" where
  "chars_of s = map (\<lambda>c. [c]) s"

text \<open>A \<open>hashlib\<close> object is the sequence of bytes fed to it so far; \<open>update\<close> appends.\<close>

definition update :: "bytes \<Rightarrow> bytes \<Rightarrow> bytes" where
  "update h d = h @ d"

text \<open>The bytes \<open>hash_key\<close> has fed to the hash object when it asks for the digest. The
  parameter \<open>args\<close> is not used: the source joins the string literal \<open>'args'\<close>.\<close>

definition hash_input :: "sys \<Rightarrow> fs \<Rightarrow> string \<Rightarrow> string list \<Rightarrow> bytes \<Rightarrow> exn + bytes" where
  "hash_input sy st program args preprocessed =
     (case getmtime st program of
        Inl e \<Rightarrow> Inl e
      | Inr m \<Rightarrow>
          (case getsize st program of
             Inl e \<Rightarrow> Inl e
           | Inr n \<Rightarrow>
               (let h0 = [];
                    h1 = update h0 (float_str sy m);
                    h2 = update h1 (str_nat n);
                    h3 = update h2 program;
                    h4 = update h3 (join '' '' (chars_of ''args''));
                    h5 = update h4 preprocessed
                in Inr h5)))"

text \<open>\<open>hash_key\<close>. A SHA-1 digest has 40 hexadecimal digits, so \<open>digest[0]\<close>,
  \<open>digest[1]\<close> and \<open>digest[2]\<close> exist; the oracle is not restricted, and the model says
  what indexing a shorter string would do.\<close>

definition hash_key :: "sys \<Rightarrow> fs \<Rightarrow> string \<Rightarrow> string list \<Rightarrow> bytes \<Rightarrow> exn + string" where
  "hash_key sy st program args preprocessed =
     (case hash_input sy st program args preprocessed of
        Inl e \<Rightarrow> Inl e
      | Inr h \<Rightarrow>
          (let digest = sha1_hex sy h
           in if length digest < 3 then Inl IndexError
              else Inr ([digest ! 0] @ ''/'' @ [digest ! 1] @ ''/'' @ [digest ! 2] @ ''/'' @ digest)))"

subsection \<open>Events\<close>

text \<open>The diagnostic lines, without the timing text; the last component of a line that
  prints a store status is \<open>None\<close> when no \<open>Bucket\<close> was created.\<close>

datatype diag =
    PreprocessorFailed
  | UsingCache string string nat
  | CompilationFailed string "int option"
  | Caching string string "int option"
  | Cached string string
  | FailureCaching string string int

datatype event =
    Call "string list"
  | CheckOutput "string list"
  | Popen "string list" bytes
  | UrlOpen string
  | S3Put string string bytes
  | OpenWrite string
  | Write string bytes
  | Spawn string string
  | Diag diag

subsection \<open>CacheData\<close>

record CacheData =
  c_data :: "bytes option"
  c_obj :: "bytes option"

text \<open>\<open>__init__\<close>, with its \<open>assert bool(data) != bool(obj)\<close>.\<close>

definition CacheData_init :: "bytes option \<Rightarrow> bytes option \<Rightarrow> exn + CacheData" where
  "CacheData_init data obj =
     (if truthy data \<noteq> truthy obj then Inr \<lparr>c_data = data, c_obj = obj\<rparr>
      else Inl AssertionError)"

text \<open>Copying \<open>gzip.GzipFile(mode='r', fileobj=StringIO(self._data))\<close> to the
  open file with \<open>shutil.copyfileobj\<close>: all the bytes of the object, or the exception
  together with the bytes copied before it was raised.\<close>

definition read_gzip :: "sys \<Rightarrow> bytes option \<Rightarrow> (exn \<times> bytes) + bytes" where
  "read_gzip sy d =
     (case d of
        None \<Rightarrow> Inl (TypeError, [])
      | Some z \<Rightarrow> (case gunzip sy z of None \<Rightarrow> Inl (gunzip_failure sy z) | Some b \<Rightarrow> Inr b))"

text \<open>The body of the \<open>with open(output, 'wb') as out\<close> statement of \<open>dump\<close>: what is
  written to the open file, and the exception that ends the writing if there is one. The
  test \<open>if self._obj\<close> fails for \<open>None\<close> and for the empty string.\<close>

definition dump_body :: "sys \<Rightarrow> CacheData \<Rightarrow> (exn \<times> bytes) + bytes" where
  "dump_body sy c =
     (case c_obj c of
        Some b \<Rightarrow> if b \<noteq> [] then Inr b else read_gzip sy (c_data c)
      | None \<Rightarrow> read_gzip sy (c_data c))"

text \<open>\<open>dump\<close>: \<open>open(output, 'wb')\<close> raises \<open>IOError\<close> when the file cannot be opened;
  otherwise the file is opened (and emptied) and receives what the body writes, up to
  the exception if one is raised. The result is the exception, if any, and the events.\<close>

definition dump :: "sys \<Rightarrow> fs \<Rightarrow> string \<Rightarrow> CacheData \<Rightarrow> exn option \<times> event list" where
  "dump sy st out_path c =
     (if \<not> can_open_wb sy st out_path then (Some IOError, [])
      else
        (case dump_body sy c of
           Inl (e, part) \<Rightarrow> (Some e, [OpenWrite out_path, Write out_path part])
         | Inr b \<Rightarrow> (None, [OpenWrite out_path, Write out_path b])))"

text \<open>The property \<open>data\<close>: the compressed bytes, computed and kept on first use.\<close>

definition data :: "sys \<Rightarrow> CacheData \<Rightarrow> exn + (bytes \<times> CacheData)" where
  "data sy c =
     (if truthy (c_data c) then
        (case c_data c of None \<Rightarrow> Inl TypeError | Some d \<Rightarrow> Inr (d, c))
      else
        (case c_obj c of
           None \<Rightarrow> Inl TypeError
         | Some b \<Rightarrow> (let z = gzip sy b in Inr (z, c\<lparr>c_data := Some z\<rparr>))))"

text \<open>\<open>from_object\<close>: \<open>open\<close> raises \<open>IOError\<close> for a missing file.\<close>

definition from_object :: "fs \<Rightarrow> string \<Rightarrow> exn + CacheData" where
  "from_object st path =
     (case st path of
        None \<Rightarrow> Inl IOError
      | Some f \<Rightarrow> CacheData_init None (Some (content f)))"

subsection \<open>Bucket\<close>

record Bucket =
  b_name :: string
  b_status :: int

definition Bucket_init :: "sys \<Rightarrow> Bucket" where
  "Bucket_init sy =
     \<lparr>b_name = (case environ sy ''SCCACHE_BUCKET'' of None \<Rightarrow> [] | Some v \<Rightarrow> v),
      b_status = 0\<rparr>"

definition bucket_url :: "string \<Rightarrow> string \<Rightarrow> string" where
  "bucket_url name key = ''http://'' @ name @ ''.s3.amazonaws.com/'' @ key"

text \<open>\<open>get\<close>: every failure is a \<open>None\<close>; an assertion failing in \<open>CacheData(data)\<close>
  would be caught by the bare \<open>except\<close>.\<close>

definition get :: "sys \<Rightarrow> Bucket \<Rightarrow> string \<Rightarrow> CacheData option \<times> Bucket \<times> event list" where
  "get sy b key =
     (let b1 = b\<lparr>b_status := - 1\<rparr>
      in if b_name b1 = [] then (None, b1, [])
         else
           (case urlopen sy (bucket_url (b_name b1) key) of
              Body d \<Rightarrow>
                (let b2 = b1\<lparr>b_status := 200\<rparr>
                 in if d \<noteq> [] then
                      (case CacheData_init (Some d) None of
                         Inl e \<Rightarrow> (None, b2, [UrlOpen (bucket_url (b_name b1) key)])
                       | Inr c \<Rightarrow> (Some c, b2, [UrlOpen (bucket_url (b_name b1) key)]))
                    else (None, b2, [UrlOpen (bucket_url (b_name b1) key)]))
            | HTTPError code \<Rightarrow>
                (None, b1\<lparr>b_status := code\<rparr>, [UrlOpen (bucket_url (b_name b1) key)])
            | URLError \<Rightarrow> (None, b1, [UrlOpen (bucket_url (b_name b1) key)])))"

text \<open>\<open>put\<close>: raises when no bucket is named and when the store refuses.\<close>

definition put :: "sys \<Rightarrow> Bucket \<Rightarrow> string \<Rightarrow> bytes \<Rightarrow> (exn + unit) \<times> Bucket \<times> event list" where
  "put sy b key d =
     (let b1 = b\<lparr>b_status := - 1\<rparr>
      in if b_name b1 = [] then (Inl NoBucketName, b1, [])
         else
           (case s3_put sy (b_name b1) key d of
              PutOk \<Rightarrow> (Inr (), b1, [S3Put (b_name b1) key d])
            | PutS3Error code \<Rightarrow>
                (Inl (S3ResponseError code), b1\<lparr>b_status := code\<rparr>, [S3Put (b_name b1) key d])
            | PutError \<Rightarrow> (Inl OtherError, b1, [S3Put (b_name b1) key d])))"

text \<open>\<open>status(timer, bytes, bucket)\<close> prints the status of a bucket when there is one.\<close>

fun status :: "Bucket option \<Rightarrow> int option" where
  "status None = None"
| "status (Some b) = Some (b_status b)"

subsection \<open>cache_store\<close>

text \<open>
  \<open>do_store\<close> runs in the detached worker process. It reads the object first and only
  then sends the acknowledgement the parent waits for, so the first component says
  whether the acknowledgement was sent; the second is what the worker did and wrote.
  Every exception of \<open>bucket.put(key, cache.data)\<close> is caught by the bare \<open>except\<close>.
\<close>

definition do_store :: "sys \<Rightarrow> fs \<Rightarrow> string \<Rightarrow> string \<Rightarrow> bool \<times> event list" where
  "do_store sy st out_path key =
     (case from_object st out_path of
        Inl e \<Rightarrow> (False, [])
      | Inr cache \<Rightarrow>
          (let bucket = Bucket_init sy
           in case data sy cache of
                Inl e \<Rightarrow> (True, [Diag (FailureCaching out_path key (b_status bucket))])
              | Inr (z, cache') \<Rightarrow>
                  (case put sy bucket key z of
                     (Inl e, bucket', evs) \<Rightarrow>
                       (True, evs @ [Diag (FailureCaching out_path key (b_status bucket'))])
                   | (Inr u, bucket', evs) \<Rightarrow>
                       (True, evs @ [Diag (Cached out_path key)]))))"

text \<open>\<open>cache_store\<close> starts the worker and blocks in \<open>parent_conn.recv()\<close> until the
  acknowledgement arrives. The parent keeps its own copy of the worker's end of the pipe
  open, so a worker that dies before sending leaves the parent blocked.\<close>

definition cache_store :: "sys \<Rightarrow> fs \<Rightarrow> string \<Rightarrow> string \<Rightarrow> bool \<times> event list \<times> event list" where
  "cache_store sy st out_path key =
     (case do_store sy st out_path key of
        (ack, wevs) \<Rightarrow> (ack, [Spawn out_path key], wevs))"

subsection \<open>main\<close>

datatype outcome = Return int | Raise exn | Blocked

text \<open>What a run does: how \<open>main\<close> ends, the events of the process itself in order, and
  the events of the detached worker.\<close>

record result =
  outcome :: outcome
  trace :: "event list"
  worker :: "event list"

text \<open>\<open>subprocess.call(command)\<close>.\<close>

definition passthrough :: "sys \<Rightarrow> fs \<Rightarrow> string list \<Rightarrow> result" where
  "passthrough sy st command =
     (case exec sy command None st of
        Inl e \<Rightarrow> \<lparr>outcome = Raise e, trace = [Call command], worker = []\<rparr>
      | Inr (rc, out, st') \<Rightarrow> \<lparr>outcome = Return rc, trace = [Call command], worker = []\<rparr>)"

text \<open>\<open>subprocess.check_output(cmd)\<close>: the standard output, or \<open>CalledProcessError\<close>
  for an exit code other than 0.\<close>

definition check_output :: "sys \<Rightarrow> fs \<Rightarrow> string list \<Rightarrow> exn + (bytes \<times> fs)" where
  "check_output sy st cmd =
     (case exec sy cmd None st of
        Inl e \<Rightarrow> Inl e
      | Inr (rc, out, st') \<Rightarrow> if rc \<noteq> 0 then Inl (CalledProcessError rc) else Inr (out, st'))"

text \<open>The branch \<open>if cache:\<close>: \<open>cache.dump(output)\<close>, the diagnostic line with
  \<open>len(cache.data)\<close>, \<open>return 0\<close>.\<close>

definition materialize ::
  "sys \<Rightarrow> fs \<Rightarrow> string \<Rightarrow> string \<Rightarrow> CacheData \<Rightarrow> outcome \<times> event list \<times> event list" where
  "materialize sy st out_path key cache =
     (case dump sy st out_path cache of
        (Some e, evs) \<Rightarrow> (Raise e, evs, [])
      | (None, evs) \<Rightarrow>
          (case data sy cache of
             Inl e \<Rightarrow> (Raise e, evs, [])
           | Inr (z, cache') \<Rightarrow>
               (Return 0, evs @ [Diag (UsingCache key out_path (length z))], [])))"

text \<open>From \<open>timer.start('comp')\<close> to the end of \<open>main\<close>. The call
  \<open>cache_store(out, output, key)\<close> reads the name \<open>key\<close>, which is bound only inside
  \<open>if preprocessed:\<close>.\<close>

definition compile_store ::
  "sys \<Rightarrow> fs \<Rightarrow> string \<Rightarrow> string \<Rightarrow> string \<Rightarrow> string list \<Rightarrow> bytes
     \<Rightarrow> string option \<Rightarrow> Bucket option \<Rightarrow> outcome \<times> event list \<times> event list" where
  "compile_store sy st program file_type out_path reduced preprocessed key bucket =
     (let cmd = [program, ''-c'', ''-x'', file_type, ''-'', ''-o'', out_path] @ reduced
      in case exec sy cmd (Some preprocessed) st of
           Inl e \<Rightarrow> (Raise e, [Popen cmd preprocessed], [])
         | Inr (ret, out, st') \<Rightarrow>
             if ret \<noteq> 0 \<or> out_path \<notin> dom st' then
               (Return ret,
                [Popen cmd preprocessed, Diag (CompilationFailed out_path (status bucket))], [])
             else
               (case key of
                  None \<Rightarrow> (Raise NameError, [Popen cmd preprocessed], [])
                | Some k \<Rightarrow>
                    (case cache_store sy st' out_path k of
                       (ack, pevs, wevs) \<Rightarrow>
                         if ack then
                           (Return 0,
                            [Popen cmd preprocessed] @ pevs
                              @ [Diag (Caching out_path k (status bucket))], wevs)
                         else (Blocked, [Popen cmd preprocessed] @ pevs, wevs))))"

text \<open>A run that has done the events \<open>pre\<close> and ends with what a branch gives.\<close>

definition finish :: "event list \<Rightarrow> outcome \<times> event list \<times> event list \<Rightarrow> result" where
  "finish pre r =
     (case r of (res, evs, wevs) \<Rightarrow> \<lparr>outcome = res, trace = pre @ evs, worker = wevs\<rparr>)"

text \<open>\<open>main\<close> after a successful classification. Control reaches
  \<open>timer.start('comp')\<close> in three ways: with \<open>key\<close> and \<open>bucket\<close> both set after a
  miss, with \<open>key\<close> alone when \<open>SCCACHE_RECACHE\<close> is in the environment, and with
  neither when the preprocessor printed nothing.\<close>

definition run_cached :: "sys \<Rightarrow> fs \<Rightarrow> invocation \<Rightarrow> result" where
  "run_cached sy st parsed =
     (case parsed of (program, inp, file_type, out_path, args, mt, reduced) \<Rightarrow>
        (let pp_cmd = [program, ''-E'', inp] @ mt @ reduced
         in case check_output sy st pp_cmd of
              Inl e \<Rightarrow>
                (case returncode e of
                   Some rc \<Rightarrow>
                     \<lparr>outcome = Return rc,
                      trace = [CheckOutput pp_cmd, Diag PreprocessorFailed], worker = []\<rparr>
                 | None \<Rightarrow> \<lparr>outcome = Raise e, trace = [CheckOutput pp_cmd], worker = []\<rparr>)
            | Inr (preprocessed, st1) \<Rightarrow>
                if preprocessed \<noteq> [] then
                  (case hash_key sy st1 program args preprocessed of
                     Inl e \<Rightarrow> \<lparr>outcome = Raise e, trace = [CheckOutput pp_cmd], worker = []\<rparr>
                   | Inr key \<Rightarrow>
                       if ''SCCACHE_RECACHE'' \<notin> dom (environ sy) then
                         (case get sy (Bucket_init sy) key of
                            (cache, bucket, evs) \<Rightarrow>
                              (case cache of
                                 Some c \<Rightarrow>
                                   finish ([CheckOutput pp_cmd] @ evs)
                                     (materialize sy st1 out_path key c)
                               | None \<Rightarrow>
                                   finish ([CheckOutput pp_cmd] @ evs)
                                     (compile_store sy st1 program file_type out_path reduced
                                        preprocessed (Some key) (Some bucket))))
                       else
                         finish [CheckOutput pp_cmd]
                           (compile_store sy st1 program file_type out_path reduced
                              preprocessed (Some key) None))
                else
                  finish [CheckOutput pp_cmd]
                    (compile_store sy st1 program file_type out_path reduced
                       preprocessed None None)))"

definition main :: "sys \<Rightarrow> fs \<Rightarrow> string list \<Rightarrow> result" where
  "main sy st command =
     (if command = [] then \<lparr>outcome = Return 0, trace = [], worker = []\<rparr>
      else
        (case parse_arguments sy st command of
           Inl e \<Rightarrow> \<lparr>outcome = Raise e, trace = [], worker = []\<rparr>
         | Inr None \<Rightarrow> passthrough sy st command
         | Inr (Some parsed) \<Rightarrow> run_cached sy st parsed))"

subsection \<open>Notions used to state the properties\<close>

text \<open>The flags whose branch in the loop of \<open>parse_arguments\<close> takes the next token
  with \<open>iter_args.next()\<close>.\<close>

definition consuming :: "string \<Rightarrow> bool" where
  "consuming a = (a = ''-o'' \<or> a \<in> set value_flags \<or> a = ''-MT'')"

text \<open>The argument vectors of the code-generation runs of a trace.\<close>

fun compile_cmds :: "event list \<Rightarrow> string list list" where
  "compile_cmds [] = []"
| "compile_cmds (Popen cmd i # es) = cmd # compile_cmds es"
| "compile_cmds (e # es) = compile_cmds es"

text \<open>The argument vectors of all the programs a trace runs, in order.\<close>

fun argvs :: "event list \<Rightarrow> string list list" where
  "argvs [] = []"
| "argvs (Call cmd # es) = cmd # argvs es"
| "argvs (CheckOutput cmd # es) = cmd # argvs es"
| "argvs (Popen cmd i # es) = cmd # argvs es"
| "argvs (e # es) = argvs es"

text \<open>Store, fetch, materialize: an object is wrapped as \<open>CacheData(obj=b)\<close>, its
  \<open>data\<close> is what is uploaded, the download is wrapped as \<open>CacheData(data)\<close> by
  \<open>Bucket.get\<close>, and \<open>dump\<close> writes the result to the file it has opened.\<close>

definition roundtrip :: "sys \<Rightarrow> bytes \<Rightarrow> exn + bytes" where
  "roundtrip sy b =
     (case CacheData_init None (Some b) of
        Inl e \<Rightarrow> Inl e
      | Inr c \<Rightarrow>
          (case data sy c of
             Inl e \<Rightarrow> Inl e
           | Inr (z, c') \<Rightarrow>
               (case CacheData_init (Some z) None of
                  Inl e \<Rightarrow> Inl e
                | Inr d \<Rightarrow>
                    (case dump_body sy d of Inl (e, part) \<Rightarrow> Inl e | Inr b' \<Rightarrow> Inr b'))))"

subsection \<open>A small concrete system\<close>

text \<open>
  A machine on which the model can be run: a compiler \<open>/usr/bin/cc\<close> found on the
  path as \<open>cc\<close>, a source file \<open>a.c\<close>, a preprocessor that prints \<open>pp\<close>, a code
  generator that writes \<open>a.o\<close> and exits 0, any other command exiting 1, a store that
  answers every request with \<open>resp\<close>, and toy stand-ins for the digest and for gzip: a
  stream is \<open>GZ\<close> followed by the object, and the byte \<open>!\<close> in it stands for a damaged
  block. Files can be created in the current directory only.
\<close>

definition demo_fs :: "bytes \<Rightarrow> fs" where
  "demo_fs binary =
     [''/usr/bin/cc'' \<mapsto> \<lparr>content = binary, mtime = 1\<rparr>,
      ''a.c'' \<mapsto> \<lparr>content = ''int x;'', mtime = 2\<rparr>]"

definition demo_exec ::
  "bytes \<Rightarrow> string list \<Rightarrow> bytes option \<Rightarrow> fs \<Rightarrow> exn + (int \<times> bytes \<times> fs)" where
  "demo_exec pp cmd stdin st =
     (if take 2 cmd = [''/usr/bin/cc'', ''-E''] then Inr (0, pp, st)
      else if take 2 cmd = [''/usr/bin/cc'', ''-c'']
      then Inr (0, [], st(''a.o'' \<mapsto> \<lparr>content = ''OBJ'', mtime = 3\<rparr>))
      else Inr (1, [], st))"

definition demo_sys :: "(string \<rightharpoonup> string) \<Rightarrow> bytes \<Rightarrow> http_result \<Rightarrow> sys" where
  "demo_sys env pp resp =
     \<lparr>which = (\<lambda>p. if p = ''cc'' then Some ''/usr/bin/cc'' else None),
      environ = env,
      float_str = (\<lambda>r. if r = 1 then ''1.0'' else ''0.0''),
      sha1_hex = (\<lambda>b. ''da39a3ee5e6b4b0d3255bfef95601890afd80709''),
      gzip = (\<lambda>b. ''GZ'' @ b),
      gunzip = (\<lambda>z. if take 2 z = ''GZ'' \<and> CHR ''!'' \<notin> set z then Some (drop 2 z) else None),
      gunzip_failure =
        (\<lambda>z. if take 2 z = ''GZ'' then (ZlibError, takeWhile (\<lambda>c. c \<noteq> CHR ''!'') (drop 2 z))
             else (IOError, [])),
      can_open_wb = (\<lambda>st p. p \<noteq> [] \<and> CHR ''/'' \<notin> set p),
      exec = demo_exec pp,
      urlopen = (\<lambda>u. resp),
      s3_put = (\<lambda>n k d. PutOk)\<rparr>"

section \<open>Properties\<close>

subsection \<open>The argument scan, case by case\<close>

text \<open>The tokens that select a branch of the loop are pairwise different, so each
  branch has its own equation, and the loop an induction rule with one case for each.\<close>

lemma value_flags_distinct:
  "a \<in> set value_flags \<Longrightarrow>
   a \<noteq> ''-c'' \<and> a \<noteq> ''-o'' \<and> a \<noteq> ''-MT'' \<and> a \<noteq> ''-fprofile-use'' \<and> a \<notin> set dep_flags"
  by (auto simp: value_flags_def dep_flags_def)

lemma dep_flags_distinct:
  "a \<in> set dep_flags \<Longrightarrow>
   a \<noteq> ''-c'' \<and> \<not> consuming a \<and> a \<noteq> ''-fprofile-use'' \<and> flag_like a"
  by (auto simp: value_flags_def dep_flags_def consuming_def flag_like_def)

lemma scan_c: "scan s (''-c'' # rest) = scan (s\<lparr>compilation := True\<rparr>) rest"
  by simp

lemma scan_o:
  "scan s (''-o'' # rest) =
     (case rest of [] \<Rightarrow> Inl StopIteration | v # rest' \<Rightarrow> scan (s\<lparr>output_arg := Some v\<rparr>) rest')"
  by simp

lemma scan_vf:
  "a \<in> set value_flags \<Longrightarrow>
   scan s (a # rest) =
     (case rest of [] \<Rightarrow> Inl StopIteration
      | v # rest' \<Rightarrow> scan (s\<lparr>reduced_args := reduced_args s @ [a, v]\<rparr>) rest')"
  using value_flags_distinct [of a] by simp

lemma scan_mt:
  "scan s (''-MT'' # rest) =
     (case rest of [] \<Rightarrow> Inl StopIteration | v # rest' \<Rightarrow> scan (s\<lparr>target := Some v\<rparr>) rest')"
  using value_flags_distinct [of "''-MT''"] by auto

lemma scan_profile: "scan s (''-fprofile-use'' # rest) = Inr None"
  using value_flags_distinct [of "''-fprofile-use''"] by auto

lemma scan_flag:
  "a \<noteq> ''-c'' \<Longrightarrow> \<not> consuming a \<Longrightarrow> a \<noteq> ''-fprofile-use'' \<Longrightarrow> flag_like a \<Longrightarrow>
   scan s (a # rest) =
     scan (s\<lparr>need_explicit_target := (need_explicit_target s \<or> a \<in> set dep_flags),
              reduced_args := reduced_args s @ [a]\<rparr>) rest"
  by (simp add: consuming_def Let_def)

lemma scan_input:
  "a \<noteq> ''-c'' \<Longrightarrow> \<not> consuming a \<Longrightarrow> a \<noteq> ''-fprofile-use'' \<Longrightarrow> \<not> flag_like a \<Longrightarrow>
   scan s (a # rest) =
     scan (s\<lparr>need_explicit_target := (need_explicit_target s \<or> a \<in> set dep_flags),
              input := input s @ [a]\<rparr>) rest"
  by (simp add: consuming_def Let_def)

lemma scan_induct2 [case_names Nil C Last O VF MT Profile Flag Input]:
  assumes "\<And>s. P s []"
    and "\<And>s rest. P (s\<lparr>compilation := True\<rparr>) rest \<Longrightarrow> P s (''-c'' # rest)"
    and "\<And>s a. consuming a \<Longrightarrow> P s [a]"
    and "\<And>s v rest. P (s\<lparr>output_arg := Some v\<rparr>) rest \<Longrightarrow> P s (''-o'' # v # rest)"
    and "\<And>s a v rest. a \<in> set value_flags \<Longrightarrow>
           P (s\<lparr>reduced_args := reduced_args s @ [a, v]\<rparr>) rest \<Longrightarrow> P s (a # v # rest)"
    and "\<And>s v rest. P (s\<lparr>target := Some v\<rparr>) rest \<Longrightarrow> P s (''-MT'' # v # rest)"
    and "\<And>s rest. P s (''-fprofile-use'' # rest)"
    and "\<And>s a rest. a \<noteq> ''-c'' \<Longrightarrow> \<not> consuming a \<Longrightarrow> a \<noteq> ''-fprofile-use'' \<Longrightarrow>
           flag_like a \<Longrightarrow>
           P (s\<lparr>need_explicit_target := (need_explicit_target s \<or> a \<in> set dep_flags),
                 reduced_args := reduced_args s @ [a]\<rparr>) rest \<Longrightarrow> P s (a # rest)"
    and "\<And>s a rest. a \<noteq> ''-c'' \<Longrightarrow> \<not> consuming a \<Longrightarrow> a \<noteq> ''-fprofile-use'' \<Longrightarrow>
           \<not> flag_like a \<Longrightarrow>
           P (s\<lparr>need_explicit_target := (need_explicit_target s \<or> a \<in> set dep_flags),
                 input := input s @ [a]\<rparr>) rest \<Longrightarrow> P s (a # rest)"
  shows "P s xs"
proof (induction xs arbitrary: s rule: length_induct)
  case (1 xs)
  show ?case
  proof (cases xs)
    case Nil
    then show ?thesis using assms(1) by simp
  next
    case (Cons a rest)
    note xs = Cons
    have IH: "\<And>ys s'. length ys < length xs \<Longrightarrow> P s' ys" using 1 by blast
    show ?thesis
    proof (cases "a = ''-c''")
      case True
      then show ?thesis using assms(2) IH xs by simp
    next
      case nc: False
      show ?thesis
      proof (cases "consuming a")
        case True
        show ?thesis
        proof (cases rest)
          case Nil
          then show ?thesis using assms(3) True xs by simp
        next
          case (Cons v rest')
          have *: "\<And>s'. P s' rest'" using IH xs Cons by simp
          from True consider "a = ''-o''" | "a \<in> set value_flags" | "a = ''-MT''"
            by (auto simp: consuming_def)
          then show ?thesis
          proof cases
            case 1
            then show ?thesis using assms(4) * xs Cons by simp
          next
            case 2
            then show ?thesis using assms(5) * xs Cons by simp
          next
            case 3
            then show ?thesis using assms(6) * xs Cons by simp
          qed
        qed
      next
        case ncons: False
        show ?thesis
        proof (cases "a = ''-fprofile-use''")
          case True
          then show ?thesis using assms(7) xs by simp
        next
          case np: False
          have *: "\<And>s'. P s' rest" using IH xs by simp
          show ?thesis
          proof (cases "flag_like a")
            case True
            then show ?thesis using assms(8) [OF nc ncons np] * xs by blast
          next
            case False
            then show ?thesis using assms(9) [OF nc ncons np] * xs by blast
          qed
        qed
      qed
    qed
  qed
qed


lemma scan_last: "consuming a \<Longrightarrow> scan s [a] = Inl StopIteration"
  unfolding consuming_def using scan_o [of s "[]"] scan_vf [of a s "[]"] scan_mt [of s "[]"]
  by auto

lemmas scan_eqs = scan_c scan_o scan_vf scan_mt scan_profile scan_flag scan_input scan_last

lemma scan_need:
  "scan s xs = Inr (Some s') \<Longrightarrow> need_explicit_target s \<Longrightarrow> need_explicit_target s'"
  by (induction s xs rule: scan_induct2) (simp_all add: scan_eqs del: scan.simps(2))

lemma scan_target:
  "scan s xs = Inr (Some s') \<Longrightarrow> ''-MT'' \<notin> set xs \<Longrightarrow> target s' = target s"
  by (induction s xs rule: scan_induct2) (simp_all add: scan_eqs del: scan.simps(2))

lemma scan_reduced:
  "scan s xs = Inr (Some s') \<Longrightarrow> set (reduced_args s') \<subseteq> set (reduced_args s) \<union> set xs"
  by (induction s xs rule: scan_induct2) (auto simp add: scan_eqs simp del: scan.simps(2))

lemma scan_output_none:
  "scan s xs = Inr (Some s') \<Longrightarrow> ''-o'' \<notin> set xs \<Longrightarrow> output_arg s' = output_arg s"
  by (induction s xs rule: scan_induct2) (simp_all add: scan_eqs del: scan.simps(2))

lemma scan_output_from:
  "scan s xs = Inr (Some s') \<Longrightarrow>
   output_arg s' = output_arg s \<or> (\<exists>v \<in> set xs. output_arg s' = Some v)"
  by (induction s xs rule: scan_induct2) (auto simp add: scan_eqs simp del: scan.simps(2))

lemma scan_compilation:
  "scan s xs = Inr (Some s') \<Longrightarrow> ''-c'' \<notin> set xs \<Longrightarrow> compilation s' = compilation s"
  by (induction s xs rule: scan_induct2) (simp_all add: scan_eqs del: scan.simps(2))

lemma scan_reach:
  "pre = [] \<or> \<not> consuming (last pre) \<Longrightarrow>
   scan s (pre @ rest) = Inr None \<or> (\<exists>s'. scan s (pre @ rest) = scan s' rest)"
proof (induction s pre rule: scan_induct2)
  case (Nil s)
  then show ?case by auto
next
  case (O s v rest')
  then show ?case by (cases rest') (simp_all add: scan_eqs del: scan.simps(2))
next
  case (VF s a v rest')
  then show ?case by (cases rest') (simp_all add: scan_eqs del: scan.simps(2))
next
  case (MT s v rest')
  then show ?case by (cases rest') (simp_all add: scan_eqs del: scan.simps(2))
next
  case (Flag s a rest')
  then show ?case by (cases rest') (simp_all add: scan_eqs del: scan.simps(2))
next
  case (Input s a rest')
  then show ?case by (cases rest') (simp_all add: scan_eqs del: scan.simps(2))
next
  case (C s rest')
  then show ?case by (cases rest') (simp_all add: scan_eqs del: scan.simps(2))
qed (simp_all add: scan_eqs del: scan.simps(2))

lemma scan_reach_no_reject:
  "pre = [] \<or> \<not> consuming (last pre) \<Longrightarrow> ''-fprofile-use'' \<notin> set pre \<Longrightarrow>
   \<exists>s'. scan s (pre @ rest) = scan s' rest"
proof (induction s pre rule: scan_induct2)
  case (Nil s)
  then show ?case by auto
next
  case (O s v rest')
  then show ?case by (cases rest') (simp_all add: scan_eqs del: scan.simps(2))
next
  case (VF s a v rest')
  then show ?case by (cases rest') (simp_all add: scan_eqs del: scan.simps(2))
next
  case (MT s v rest')
  then show ?case by (cases rest') (simp_all add: scan_eqs del: scan.simps(2))
next
  case (Flag s a rest')
  then show ?case by (cases rest') (simp_all add: scan_eqs del: scan.simps(2))
next
  case (Input s a rest')
  then show ?case by (cases rest') (simp_all add: scan_eqs del: scan.simps(2))
next
  case (C s rest')
  then show ?case by (cases rest') (simp_all add: scan_eqs del: scan.simps(2))
qed (simp_all add: scan_eqs del: scan.simps(2))

subsection \<open>What the branches of main run\<close>

lemma argvs_append: "argvs (xs @ ys) = argvs xs @ argvs ys"
  by (induction xs rule: argvs.induct) simp_all

lemma compile_cmds_append: "compile_cmds (xs @ ys) = compile_cmds xs @ compile_cmds ys"
  by (induction xs rule: compile_cmds.induct) simp_all

lemma get_events:
  "get sy b key = (c, b', evs) \<Longrightarrow> argvs evs = [] \<and> compile_cmds evs = []"
  by (auto simp: get_def Let_def split: if_splits http_result.splits sum.splits)

lemma materialize_events:
  "materialize sy st out_path key c = (res, evs, wevs) \<Longrightarrow>
   argvs evs = [] \<and> compile_cmds evs = []"
  by (auto simp: materialize_def dump_def split: sum.splits prod.splits option.splits if_splits)

lemma compile_store_events:
  "compile_store sy st program file_type out_path reduced pp key bucket = (res, evs, wevs) \<Longrightarrow>
   argvs evs = [[program, ''-c'', ''-x'', file_type, ''-'', ''-o'', out_path] @ reduced]"
  by (auto simp: compile_store_def cache_store_def Let_def
      split: sum.splits prod.splits option.splits if_splits)

lemma run_cached_argvs:
  "argvs (trace (run_cached sy st (program, inp, file_type, out_path, args, mt, reduced)))
     = [[program, ''-E'', inp] @ mt @ reduced] \<or>
   argvs (trace (run_cached sy st (program, inp, file_type, out_path, args, mt, reduced)))
     = [[program, ''-E'', inp] @ mt @ reduced,
        [program, ''-c'', ''-x'', file_type, ''-'', ''-o'', out_path] @ reduced]"
  by (auto simp: run_cached_def finish_def Let_def argvs_append
      split: sum.splits prod.splits option.splits if_splits
      dest!: get_events materialize_events compile_store_events)

lemma classify_Some:
  "classify p a s = Some (program, inp, file_type, out_path, args, mt, reduced) \<Longrightarrow>
   program = p \<and> args = a \<and> output_arg s = Some out_path \<and> out_path \<noteq> [] \<and>
   compilation s \<and> input s = [inp] \<and> inp \<noteq> ''-'' \<and>
   FILE_TYPES (snd (splitext inp)) = Some file_type \<and>
   mt = (if need_explicit_target s then [''-MT'', or_else (target s) out_path] else []) \<and>
   reduced = reduced_args s"
  by (cases "input s") (auto simp: classify_def Let_def split: option.splits if_splits)

lemma parse_arguments_Some:
  "parse_arguments sy st (program0 # args) = Inr (Some parsed) \<Longrightarrow>
   \<exists>p s. resolve sy st program0 = Some p \<and> scan scan_init args = Inr (Some s) \<and>
         classify p args s = Some parsed"
  by (auto simp: parse_arguments_def split: option.splits sum.splits)

lemma FILE_TYPES_ran:
  "FILE_TYPES x = Some t \<Longrightarrow> t = ''cpp-output'' \<or> t = ''c++-cpp-output'' \<or> t = ''c++-cpp-outout''"
  by (auto simp: FILE_TYPES_def split: if_splits)

lemma get_hit:
  "get sy (Bucket_init sy) key = (Some c, b, evs) \<Longrightarrow>
   \<exists>name d. environ sy ''SCCACHE_BUCKET'' = Some name \<and> name \<noteq> [] \<and>
     urlopen sy (bucket_url name key) = Body d \<and> d \<noteq> [] \<and>
     c = \<lparr>c_data = Some d, c_obj = None\<rparr>"
  by (auto simp: get_def Bucket_init_def CacheData_init_def Let_def
      split: if_splits http_result.splits option.splits)

text \<open>The definitions that running the model on the concrete system unfolds.\<close>

lemmas demo_parse_defs = parse_arguments_def resolve_def demo_fs_def demo_sys_def
  scan_init_def classify_def splitext_def rfind_def FILE_TYPES_def value_flags_def
  dep_flags_def flag_like_def Let_def

lemmas demo_run_defs = main_def run_cached_def check_output_def demo_exec_def finish_def
  hash_key_def hash_input_def getmtime_def getsize_def update_def chars_of_def
  get_def Bucket_init_def bucket_url_def CacheData_init_def materialize_def dump_def
  dump_body_def read_gzip_def data_def compile_store_def cache_store_def do_store_def from_object_def
  put_def

subsection \<open>The fingerprint\<close>

text \<open>
  Claim C1. The digest is meant to cover the original argument list, so that two
  invocations differing only in their arguments feed different bytes to the hash. In
  the code they do not: \<open>hash_key\<close> feeds the fixed text \<open>a r g s\<close> where the arguments
  should be, so the invocations with \<open>-O0\<close> and with \<open>-O2\<close> feed the same bytes and get
  the same key. On the concrete system the bytes fed are the time, the size, the path,
  \<open>a r g s\<close> and the preprocessed text.
\<close>

theorem hash_key_ignores_args:
  "hash_input sy st program [''-O0''] pp = hash_input sy st program [''-O2''] pp \<and>
   hash_key sy st program [''-O0''] pp = hash_key sy st program [''-O2''] pp \<and>
   hash_input (demo_sys Map.empty [] URLError) (demo_fs ''ELF'') ''/usr/bin/cc'' [''-O2''] ''int x;''
     = Inr ''1.03/usr/bin/cca r g sint x;''"
  by (simp add: hash_key_def hash_input_def getmtime_def getsize_def demo_fs_def demo_sys_def
      update_def chars_of_def)

text \<open>
  Claim C6. Key derivation is deterministic: for a program path, an argument list and
  preprocessed bytes, two evaluations of \<open>hash_key\<close> give the same result whenever the
  program file has the same last-modified time and the same size in both, whatever else
  differs between the two file systems and the two environments.
\<close>

theorem hash_key_deterministic:
  assumes "getmtime st1 program = getmtime st2 program"
    and "getsize st1 program = getsize st2 program"
    and "float_str sy1 = float_str sy2"
    and "sha1_hex sy1 = sha1_hex sy2"
  shows "hash_key sy1 st1 program args pp = hash_key sy2 st2 program args pp"
  unfolding hash_key_def hash_input_def assms by (rule refl)

theorem hash_key_deterministic_witness:
  "hash_key (demo_sys Map.empty [] URLError) (demo_fs ''ELF'') ''/usr/bin/cc'' [''-c''] ''int x;''
     = hash_key (demo_sys [''SCCACHE_BUCKET'' \<mapsto> ''b''] ''x'' (Body ''y'')) (demo_fs ''FLE'')
         ''/usr/bin/cc'' [''-c''] ''int x;'' \<and>
   hash_key (demo_sys Map.empty [] URLError) (demo_fs ''ELF'') ''/usr/bin/cc'' [''-c''] ''int x;''
     = Inr ''d/a/3/da39a3ee5e6b4b0d3255bfef95601890afd80709''"
proof -
  let ?s1 = "demo_sys Map.empty [] URLError"
  let ?s2 = "demo_sys [''SCCACHE_BUCKET'' \<mapsto> ''b''] ''x'' (Body ''y'')"
  have 1: "getmtime (demo_fs ''ELF'') ''/usr/bin/cc'' = getmtime (demo_fs ''FLE'') ''/usr/bin/cc''"
    by (simp add: getmtime_def demo_fs_def)
  have 2: "getsize (demo_fs ''ELF'') ''/usr/bin/cc'' = getsize (demo_fs ''FLE'') ''/usr/bin/cc''"
    by (simp add: getsize_def demo_fs_def)
  have 3: "float_str ?s1 = float_str ?s2" by (simp add: demo_sys_def)
  have 4: "sha1_hex ?s1 = sha1_hex ?s2" by (simp add: demo_sys_def)
  have 5: "hash_key ?s1 (demo_fs ''ELF'') ''/usr/bin/cc'' [''-c''] ''int x;''
     = Inr ''d/a/3/da39a3ee5e6b4b0d3255bfef95601890afd80709''"
    by (simp add: hash_key_def hash_input_def getmtime_def getsize_def demo_fs_def demo_sys_def)
  from hash_key_deterministic [OF 1 2 3 4] 5 show ?thesis by simp
qed

subsection \<open>The transport representation\<close>

text \<open>
  Claim C7, as stated, for every byte string: it fails for the empty one. The assertion
  in \<open>CacheData.__init__\<close> rejects an object that is empty, so nothing is compressed.
\<close>

theorem roundtrip_empty_counterexample:
  "roundtrip (demo_sys Map.empty [] URLError) [] = Inl AssertionError"
  by (simp add: roundtrip_def CacheData_init_def)

text \<open>
  Claim C7, amended. For every byte string \<open>b\<close> that is not empty, when the gzip library
  gives back \<open>b\<close> from what it made of \<open>b\<close> (and what it made is not empty, as a gzip
  stream never is), compressing \<open>b\<close> with \<open>CacheData.data\<close> and decompressing the result
  with \<open>CacheData.dump\<close> writes exactly \<open>b\<close>.
\<close>

theorem roundtrip_nonempty:
  assumes "b \<noteq> []" and "gunzip sy (gzip sy b) = Some b" and "gzip sy b \<noteq> []"
  shows "roundtrip sy b = Inr b"
  using assms
  by (simp add: roundtrip_def CacheData_init_def data_def dump_body_def read_gzip_def Let_def)

theorem roundtrip_nonempty_witness:
  "roundtrip (demo_sys Map.empty [] URLError) ''OBJ'' = Inr ''OBJ''"
proof -
  let ?s = "demo_sys Map.empty [] URLError"
  have 1: "''OBJ'' \<noteq> []" by simp
  have 2: "gunzip ?s (gzip ?s ''OBJ'') = Some ''OBJ''" by (simp add: demo_sys_def)
  have 3: "gzip ?s ''OBJ'' \<noteq> []" by (simp add: demo_sys_def)
  from roundtrip_nonempty [OF 1 2 3] show ?thesis .
qed

subsection \<open>The table of source kinds\<close>

text \<open>
  Claim C8. The table is meant to send \<open>.cc\<close>, \<open>.cpp\<close> and \<open>.cxx\<close> to one C++ tag and
  \<open>.c\<close> to the C tag. It sends \<open>.c\<close> to \<open>cpp-output\<close> and \<open>.cc\<close> and \<open>.cpp\<close> to
  \<open>c++-cpp-output\<close>, but \<open>.cxx\<close> to the misspelt \<open>c++-cpp-outout\<close>: the entry for
  \<open>.cxx\<close> differs from the entry for \<open>.cc\<close>.
\<close>

theorem FILE_TYPES_cxx_differs:
  "FILE_TYPES ''.c'' = Some ''cpp-output'' \<and>
   FILE_TYPES ''.cc'' = Some ''c++-cpp-output'' \<and>
   FILE_TYPES ''.cpp'' = Some ''c++-cpp-output'' \<and>
   FILE_TYPES ''.cxx'' = Some ''c++-cpp-outout'' \<and>
   FILE_TYPES ''.cxx'' \<noteq> FILE_TYPES ''.cc''"
  by (simp add: FILE_TYPES_def)

subsection \<open>Classification\<close>

text \<open>
  Claim C10, as stated, for every command whose last token is a flag that takes a value:
  it fails when the scan does not reach that token. In \<open>cc -fprofile-use -c a.c -o\<close>
  the scan returns at \<open>-fprofile-use\<close>, nothing is raised, classification fails and the
  command is run unchanged. (It also fails when the last token is itself the value of the
  flag before it, as \<open>-I\<close> in \<open>cc -c a.c -o -I\<close>, and when the program is not found.)
\<close>

theorem trailing_flag_counterexample:
  "consuming ''-o'' \<and>
   parse_arguments (demo_sys Map.empty ''int x;'' URLError) (demo_fs ''ELF'')
       [''cc'', ''-fprofile-use'', ''-c'', ''a.c'', ''-o''] = Inr None \<and>
   main (demo_sys Map.empty ''int x;'' URLError) (demo_fs ''ELF'')
       [''cc'', ''-fprofile-use'', ''-c'', ''a.c'', ''-o'']
     = \<lparr>outcome = Return 1,
        trace = [Call [''cc'', ''-fprofile-use'', ''-c'', ''a.c'', ''-o'']], worker = []\<rparr>"
  by (simp add: consuming_def demo_parse_defs main_def passthrough_def demo_exec_def)

text \<open>
  Claim C10, amended. If the program is found, the last token is a flag that takes a
  value (\<open>-o\<close>, \<open>-MT\<close> or one of the fixed set), the token before it is not such a flag
  (so the last token is not consumed as a value) and \<open>-fprofile-use\<close> does not occur
  before it, then \<open>parse_arguments\<close> raises \<open>StopIteration\<close>; \<open>main\<close> lets it through,
  so the command is neither classified nor run.
\<close>

theorem trailing_value_flag_raises:
  assumes "resolve sy st program0 = Some program"
    and "consuming f"
    and "pre = [] \<or> \<not> consuming (last pre)"
    and "''-fprofile-use'' \<notin> set pre"
  shows "parse_arguments sy st (program0 # pre @ [f]) = Inl StopIteration \<and>
         main sy st (program0 # pre @ [f])
           = \<lparr>outcome = Raise StopIteration, trace = [], worker = []\<rparr>"
proof -
  obtain s' where "scan scan_init (pre @ [f]) = scan s' [f]"
    using scan_reach_no_reject [OF assms(3) assms(4)] by blast
  then have "scan scan_init (pre @ [f]) = Inl StopIteration"
    using scan_last [OF assms(2)] by simp
  then have "parse_arguments sy st (program0 # pre @ [f]) = Inl StopIteration"
    using assms(1) by (simp add: parse_arguments_def)
  then show ?thesis by (simp add: main_def)
qed

theorem trailing_value_flag_raises_witness:
  "parse_arguments (demo_sys Map.empty ''int x;'' URLError) (demo_fs ''ELF'')
       [''cc'', ''-c'', ''a.c'', ''-o''] = Inl StopIteration \<and>
   main (demo_sys Map.empty ''int x;'' URLError) (demo_fs ''ELF'') [''cc'', ''-c'', ''a.c'', ''-o'']
     = \<lparr>outcome = Raise StopIteration, trace = [], worker = []\<rparr>"
proof -
  let ?sy = "demo_sys Map.empty ''int x;'' URLError"
  have 1: "resolve ?sy (demo_fs ''ELF'') ''cc'' = Some ''/usr/bin/cc''"
    by (simp add: resolve_def demo_fs_def demo_sys_def)
  have 2: "consuming ''-o''" by (simp add: consuming_def)
  have 3: "[''-c'', ''a.c''] = [] \<or> \<not> consuming (last [''-c'', ''a.c''])"
    by (simp add: consuming_def value_flags_def)
  have 4: "''-fprofile-use'' \<notin> set [''-c'', ''a.c'']" by simp
  from trailing_value_flag_raises [OF 1 2 3 4] show ?thesis by simp
qed

text \<open>
  Claim C4, as stated, for any command containing \<open>-fprofile-use\<close>: it fails when the
  token is the value of a flag. In \<open>cc -c a.c -o a.o -Xlinker -fprofile-use\<close> the token
  is what \<open>-Xlinker\<close> passes on, both are copied to the reduced arguments, and the
  command is classified.
\<close>

theorem profile_use_counterexample:
  "parse_arguments (demo_sys Map.empty ''int x;'' URLError) (demo_fs ''ELF'')
       [''cc'', ''-c'', ''a.c'', ''-o'', ''a.o'', ''-Xlinker'', ''-fprofile-use'']
     = Inr (Some (''/usr/bin/cc'', ''a.c'', ''cpp-output'', ''a.o'',
                  [''-c'', ''a.c'', ''-o'', ''a.o'', ''-Xlinker'', ''-fprofile-use''], [],
                  [''-Xlinker'', ''-fprofile-use'']))"
  by (simp add: parse_arguments_def resolve_def demo_fs_def demo_sys_def
      scan_init_def classify_def splitext_def rfind_def FILE_TYPES_def value_flags_def
      dep_flags_def flag_like_def Let_def)

text \<open>
  Claim C4, amended. Whenever \<open>parse_arguments\<close> returns, it returns the classification
  failure for a command without \<open>-c\<close>, without \<open>-o\<close>, with \<open>-fprofile-use\<close> anywhere but
  right after a flag that takes a value, or for which the scan collects no input, several
  inputs, the single input \<open>-\<close>, or an input whose extension is not in the table; \<open>main\<close>
  then runs the original command unchanged and ends as that run does, with its exit code.
\<close>

theorem reject_passthrough:
  assumes "parse_arguments sy st (program # args) = Inr r"
    and "''-c'' \<notin> set args \<or> ''-o'' \<notin> set args \<or>
         (\<exists>pre post. args = pre @ ''-fprofile-use'' # post \<and> (pre = [] \<or> \<not> consuming (last pre))) \<or>
         (\<exists>s. scan scan_init args = Inr (Some s) \<and>
              (length (input s) \<noteq> 1 \<or> input s = [''-''] \<or>
               FILE_TYPES (snd (splitext (hd (input s)))) = None))"
  shows "r = None \<and>
         main sy st (program # args)
           = \<lparr>outcome = (case exec sy (program # args) None st of
                           Inl e \<Rightarrow> Raise e
                         | Inr (rc, out, st') \<Rightarrow> Return rc),
              trace = [Call (program # args)], worker = []\<rparr>"
proof -
  have r: "r = None"
  proof (cases "resolve sy st program")
    case None
    then show ?thesis using assms(1) by (simp add: parse_arguments_def)
  next
    case (Some p)
    show ?thesis
    proof (cases "scan scan_init args")
      case (Inl e)
      then show ?thesis using assms(1) Some by (simp add: parse_arguments_def)
    next
      case (Inr so)
      show ?thesis
      proof (cases so)
        case None
        then show ?thesis using assms(1) Some Inr by (simp add: parse_arguments_def)
      next
        case (Some s)
        note sc = Inr [unfolded Some]
        have r: "r = classify p args s"
          using assms(1) \<open>resolve sy st program = Some p\<close> sc by (simp add: parse_arguments_def)
        from assms(2) consider
            (c) "''-c'' \<notin> set args"
          | (o) "''-o'' \<notin> set args"
          | (prof) pre post where "args = pre @ ''-fprofile-use'' # post"
              "pre = [] \<or> \<not> consuming (last pre)"
          | (inp) "length (input s) \<noteq> 1 \<or> input s = [''-''] \<or>
               FILE_TYPES (snd (splitext (hd (input s)))) = None"
          using sc by auto
        then show ?thesis
        proof cases
          case c
          then have "\<not> compilation s"
            using scan_compilation [OF sc] by (simp add: scan_init_def)
          then show ?thesis using r by (simp add: classify_def split: option.splits)
        next
          case o
          then have "output_arg s = None"
            using scan_output_none [OF sc] by (simp add: scan_init_def)
          then show ?thesis using r by (simp add: classify_def)
        next
          case prof
          from scan_reach [OF prof(2), of scan_init "''-fprofile-use'' # post"]
          have "scan scan_init args = Inr None"
            using prof(1) scan_profile by auto
          then show ?thesis using sc by simp
        next
          case inp
          then show ?thesis using r by (auto simp: classify_def split: option.splits)
        qed
      qed
    qed
  qed
  then have "parse_arguments sy st (program # args) = Inr None" using assms(1) by simp
  then have "main sy st (program # args) = passthrough sy st (program # args)"
    by (simp add: main_def)
  then show ?thesis using r by (simp add: passthrough_def split: sum.splits)
qed

theorem reject_passthrough_witness:
  "main (demo_sys Map.empty ''int x;'' URLError) (demo_fs ''ELF'') [''cc'', ''a.c'', ''-o'', ''a.o'']
     = \<lparr>outcome = Return 1, trace = [Call [''cc'', ''a.c'', ''-o'', ''a.o'']], worker = []\<rparr> \<and>
   main (demo_sys Map.empty ''int x;'' URLError) (demo_fs ''ELF'')
        [''cc'', ''-c'', ''a.c'', ''-o'', ''a.o'', ''-fprofile-use'']
     = \<lparr>outcome = Return 1,
        trace = [Call [''cc'', ''-c'', ''a.c'', ''-o'', ''a.o'', ''-fprofile-use'']], worker = []\<rparr> \<and>
   main (demo_sys Map.empty ''int x;'' URLError) (demo_fs ''ELF'') [''cc'', ''-c'', ''a.s'', ''-o'', ''a.o'']
     = \<lparr>outcome = Return 1, trace = [Call [''cc'', ''-c'', ''a.s'', ''-o'', ''a.o'']], worker = []\<rparr> \<and>
   main (demo_sys Map.empty ''int x;'' URLError) (demo_fs ''ELF'') [''cc'', ''-c'', ''-'', ''-o'', ''a.o'']
     = \<lparr>outcome = Return 1, trace = [Call [''cc'', ''-c'', ''-'', ''-o'', ''a.o'']], worker = []\<rparr>"
proof -
  let ?sy = "demo_sys Map.empty ''int x;'' URLError"
  let ?st = "demo_fs ''ELF''"
  have ex: "\<And>cmd. exec ?sy (''cc'' # cmd) None ?st = Inr (1, [], ?st)"
    by (simp add: demo_sys_def demo_exec_def)
  let ?a = "[''a.c'', ''-o'', ''a.o'']"
  have a1: "parse_arguments ?sy ?st (''cc'' # ?a) = Inr None"
    by (simp add: demo_parse_defs)
  have a2: "''-c'' \<notin> set ?a \<or> ''-o'' \<notin> set ?a \<or>
         (\<exists>pre post. ?a = pre @ ''-fprofile-use'' # post \<and> (pre = [] \<or> \<not> consuming (last pre))) \<or>
         (\<exists>s. scan scan_init ?a = Inr (Some s) \<and>
              (length (input s) \<noteq> 1 \<or> input s = [''-''] \<or>
               FILE_TYPES (snd (splitext (hd (input s)))) = None))"
    by simp
  let ?b = "[''-c'', ''a.c'', ''-o'', ''a.o'', ''-fprofile-use'']"
  have b1: "parse_arguments ?sy ?st (''cc'' # ?b) = Inr None"
    by (simp add: demo_parse_defs)
  have "?b = [''-c'', ''a.c'', ''-o'', ''a.o''] @ ''-fprofile-use'' # [] \<and>
        ([''-c'', ''a.c'', ''-o'', ''a.o''] = [] \<or> \<not> consuming (last [''-c'', ''a.c'', ''-o'', ''a.o'']))"
    by (simp add: consuming_def value_flags_def)
  then have b2: "''-c'' \<notin> set ?b \<or> ''-o'' \<notin> set ?b \<or>
         (\<exists>pre post. ?b = pre @ ''-fprofile-use'' # post \<and> (pre = [] \<or> \<not> consuming (last pre))) \<or>
         (\<exists>s. scan scan_init ?b = Inr (Some s) \<and>
              (length (input s) \<noteq> 1 \<or> input s = [''-''] \<or>
               FILE_TYPES (snd (splitext (hd (input s)))) = None))"
    by blast
  let ?c = "[''-c'', ''a.s'', ''-o'', ''a.o'']"
  have c1: "parse_arguments ?sy ?st (''cc'' # ?c) = Inr None"
    by (simp add: demo_parse_defs)
  have "scan scan_init ?c
          = Inr (Some \<lparr>reduced_args = [], input = [''a.s''], output_arg = Some ''a.o'',
                       target = None, need_explicit_target = False, compilation = True\<rparr>)"
    by (simp add: scan_init_def value_flags_def dep_flags_def flag_like_def)
  moreover have "FILE_TYPES (snd (splitext ''a.s'')) = None"
    by (simp add: splitext_def rfind_def FILE_TYPES_def)
  ultimately have c2: "''-c'' \<notin> set ?c \<or> ''-o'' \<notin> set ?c \<or>
         (\<exists>pre post. ?c = pre @ ''-fprofile-use'' # post \<and> (pre = [] \<or> \<not> consuming (last pre))) \<or>
         (\<exists>s. scan scan_init ?c = Inr (Some s) \<and>
              (length (input s) \<noteq> 1 \<or> input s = [''-''] \<or>
               FILE_TYPES (snd (splitext (hd (input s)))) = None))"
    by simp
  let ?d = "[''-c'', ''-'', ''-o'', ''a.o'']"
  have d1: "parse_arguments ?sy ?st (''cc'' # ?d) = Inr None"
    by (simp add: demo_parse_defs)
  have "scan scan_init ?d
          = Inr (Some \<lparr>reduced_args = [], input = [''-''], output_arg = Some ''a.o'',
                       target = None, need_explicit_target = False, compilation = True\<rparr>)"
    by (simp add: scan_init_def value_flags_def dep_flags_def flag_like_def)
  then have d2: "''-c'' \<notin> set ?d \<or> ''-o'' \<notin> set ?d \<or>
         (\<exists>pre post. ?d = pre @ ''-fprofile-use'' # post \<and> (pre = [] \<or> \<not> consuming (last pre))) \<or>
         (\<exists>s. scan scan_init ?d = Inr (Some s) \<and>
              (length (input s) \<noteq> 1 \<or> input s = [''-''] \<or>
               FILE_TYPES (snd (splitext (hd (input s)))) = None))"
    by simp
  from reject_passthrough [OF a1 a2] reject_passthrough [OF b1 b2]
    reject_passthrough [OF c1 c2] reject_passthrough [OF d1 d2]
  show ?thesis by (simp add: ex)
qed

text \<open>
  Claim C5. When one of \<open>-M\<close>, \<open>-MM\<close>, \<open>-MD\<close>, \<open>-MMD\<close> is met as a flag and the command
  has no \<open>-MT\<close>, the pair \<open>-MT <output>\<close> is made up and handed to the preprocessing run
  only: the programs \<open>main\<close> runs are the preprocessor, with the pair, and then at most the
  code generator, whose arguments are exactly the fixed ones followed by the reduced
  arguments and contain no \<open>-MT\<close>.
\<close>

theorem explicit_target_only_preprocess:
  assumes "parse_arguments sy st (program0 # args)
             = Inr (Some (program, inp, file_type, out_path, args', mt, reduced))"
    and "args = pre @ d # post"
    and "d \<in> set dep_flags"
    and "pre = [] \<or> \<not> consuming (last pre)"
    and "''-MT'' \<notin> set args"
  shows "mt = [''-MT'', out_path] \<and>
         (argvs (trace (main sy st (program0 # args)))
            = [[program, ''-E'', inp] @ [''-MT'', out_path] @ reduced] \<or>
          argvs (trace (main sy st (program0 # args)))
            = [[program, ''-E'', inp] @ [''-MT'', out_path] @ reduced,
               [program, ''-c'', ''-x'', file_type, ''-'', ''-o'', out_path] @ reduced]) \<and>
         ''-MT'' \<notin> set ([''-c'', ''-x'', file_type, ''-'', ''-o'', out_path] @ reduced)"
proof -
  from parse_arguments_Some [OF assms(1)] obtain p s where
    sc: "scan scan_init args = Inr (Some s)" and
    cl: "classify p args s = Some (program, inp, file_type, out_path, args', mt, reduced)"
    by blast
  note c = classify_Some [OF cl]
  from scan_reach [OF assms(4), of scan_init "d # post"] sc assms(2)
  obtain s' where "scan s' (d # post) = Inr (Some s)" by auto
  then have "scan (s'\<lparr>need_explicit_target := (need_explicit_target s' \<or> d \<in> set dep_flags),
                       reduced_args := reduced_args s' @ [d]\<rparr>) post = Inr (Some s)"
    using dep_flags_distinct [OF assms(3)] by (simp add: scan_flag del: scan.simps(2))
  from scan_need [OF this] assms(3) have need: "need_explicit_target s" by simp
  have "target s = None" using scan_target [OF sc assms(5)] by (simp add: scan_init_def)
  with need c have mt: "mt = [''-MT'', out_path]" by simp
  have red: "''-MT'' \<notin> set reduced"
    using scan_reduced [OF sc] assms(5) c by (auto simp: scan_init_def)
  have out: "out_path \<noteq> ''-MT''"
    using scan_output_from [OF sc] assms(5) c by (auto simp: scan_init_def)
  have ft: "file_type \<noteq> ''-MT''" using FILE_TYPES_ran c by fastforce
  have "main sy st (program0 # args)
          = run_cached sy st (program, inp, file_type, out_path, args', mt, reduced)"
    using assms(1) by (simp add: main_def)
  with run_cached_argvs [of sy st program inp file_type out_path args' mt reduced] mt red out ft
  show ?thesis by simp
qed

theorem explicit_target_only_preprocess_witness:
  "argvs (trace (main (demo_sys Map.empty ''a.o: a.c'' URLError) (demo_fs ''ELF'')
                   [''cc'', ''-M'', ''a.c'', ''-c'', ''-o'', ''a.o'']))
     = [[''/usr/bin/cc'', ''-E'', ''a.c'', ''-MT'', ''a.o'', ''-M'']] \<or>
   argvs (trace (main (demo_sys Map.empty ''a.o: a.c'' URLError) (demo_fs ''ELF'')
                   [''cc'', ''-M'', ''a.c'', ''-c'', ''-o'', ''a.o'']))
     = [[''/usr/bin/cc'', ''-E'', ''a.c'', ''-MT'', ''a.o'', ''-M''],
        [''/usr/bin/cc'', ''-c'', ''-x'', ''cpp-output'', ''-'', ''-o'', ''a.o'', ''-M'']]"
proof -
  let ?sy = "demo_sys Map.empty ''a.o: a.c'' URLError"
  let ?args = "[''-M'', ''a.c'', ''-c'', ''-o'', ''a.o'']"
  have 1: "parse_arguments ?sy (demo_fs ''ELF'') (''cc'' # ?args)
             = Inr (Some (''/usr/bin/cc'', ''a.c'', ''cpp-output'', ''a.o'', ?args,
                          [''-MT'', ''a.o''], [''-M'']))"
    by (simp add: parse_arguments_def resolve_def demo_fs_def demo_sys_def
      scan_init_def classify_def splitext_def rfind_def FILE_TYPES_def value_flags_def
      dep_flags_def flag_like_def Let_def)
  have 2: "?args = [] @ ''-M'' # [''a.c'', ''-c'', ''-o'', ''a.o'']" by simp
  have 3: "''-M'' \<in> set dep_flags" by (simp add: dep_flags_def)
  have 4: "([]::string list) = [] \<or> \<not> consuming (last [])" by simp
  have 5: "''-MT'' \<notin> set ?args" by simp
  from explicit_target_only_preprocess [OF 1 2 3 4 5] show ?thesis by simp
qed

subsection \<open>The run\<close>

text \<open>
  Claim C2. On a hit the cached bytes are meant to be decompressed and written, and
  \<open>main\<close> to return 0 without running the compiler. \<open>Bucket.get\<close> wraps any non-empty
  answer of the store as a cached object, and catches every failure of the request;
  \<open>dump\<close> runs later, outside that handler. On the concrete system, when the store
  answers with bytes that are not a gzip stream, the lookup is a hit, \<open>dump\<close> opens the
  output file and the reader raises, and \<open>main\<close> ends with the \<open>IOError\<close> instead of
  returning 0, leaving the output file empty. The compiler is not run.
\<close>

theorem hit_undecodable_raises:
  "fst (get (demo_sys [''SCCACHE_BUCKET'' \<mapsto> ''b''] ''int x;'' (Body ''junk''))
          (Bucket_init (demo_sys [''SCCACHE_BUCKET'' \<mapsto> ''b''] ''int x;'' (Body ''junk'')))
          ''d/a/3/da39a3ee5e6b4b0d3255bfef95601890afd80709'')
     = Some \<lparr>c_data = Some ''junk'', c_obj = None\<rparr> \<and>
   main (demo_sys [''SCCACHE_BUCKET'' \<mapsto> ''b''] ''int x;'' (Body ''junk'')) (demo_fs ''ELF'')
        [''cc'', ''-c'', ''a.c'', ''-o'', ''a.o'']
     = \<lparr>outcome = Raise IOError,
        trace = [CheckOutput [''/usr/bin/cc'', ''-E'', ''a.c''],
                 UrlOpen ''http://b.s3.amazonaws.com/d/a/3/da39a3ee5e6b4b0d3255bfef95601890afd80709'',
                 OpenWrite ''a.o'', Write ''a.o'' []],
        worker = []\<rparr>"
  by (simp add: demo_parse_defs demo_run_defs)

text \<open>The same with a stream whose header is good and whose data is damaged: the reader
  raises \<open>zlib.error\<close> after part of the object has been written.\<close>

lemma hit_damaged_stream:
  "main (demo_sys [''SCCACHE_BUCKET'' \<mapsto> ''b''] ''int x;'' (Body ''GZOB!J'')) (demo_fs ''ELF'')
        [''cc'', ''-c'', ''a.c'', ''-o'', ''a.o'']
     = \<lparr>outcome = Raise ZlibError,
        trace = [CheckOutput [''/usr/bin/cc'', ''-E'', ''a.c''],
                 UrlOpen ''http://b.s3.amazonaws.com/d/a/3/da39a3ee5e6b4b0d3255bfef95601890afd80709'',
                 OpenWrite ''a.o'', Write ''a.o'' ''OB''],
        worker = []\<rparr>"
  by (simp add: demo_parse_defs demo_run_defs)

text \<open>A hit whose output path cannot be opened: \<open>open\<close> raises and nothing is written.\<close>

lemma hit_unopenable_output:
  "main (demo_sys [''SCCACHE_BUCKET'' \<mapsto> ''b''] ''int x;'' (Body ''GZOBJ'')) (demo_fs ''ELF'')
        [''cc'', ''-c'', ''a.c'', ''-o'', ''nodir/sub/a.o'']
     = \<lparr>outcome = Raise IOError,
        trace = [CheckOutput [''/usr/bin/cc'', ''-E'', ''a.c''],
                 UrlOpen ''http://b.s3.amazonaws.com/d/a/3/da39a3ee5e6b4b0d3255bfef95601890afd80709''],
        worker = []\<rparr>"
  by (simp add: demo_parse_defs demo_run_defs)

text \<open>
  What does hold on a hit. In every run in which the lookup returns a cached object,
  the only program run is the preprocessor: the compiler is never run for code
  generation, whether or not the object can be written.
\<close>

lemma hit_never_compiles:
  assumes "parse_arguments sy st command
             = Inr (Some (program, inp, file_type, out_path, args, mt, reduced))"
    and "check_output sy st ([program, ''-E'', inp] @ mt @ reduced) = Inr (pp, st1)"
    and "pp \<noteq> []"
    and "hash_key sy st1 program args pp = Inr key"
    and "''SCCACHE_RECACHE'' \<notin> dom (environ sy)"
    and "get sy (Bucket_init sy) key = (Some c, b, evs)"
  shows "compile_cmds (trace (main sy st command)) = [] \<and>
         argvs (trace (main sy st command)) = [[program, ''-E'', inp] @ mt @ reduced]"
proof -
  have ne: "command \<noteq> []" using assms(1) by (auto simp: parse_arguments_def)
  obtain res mevs wevs where m: "materialize sy st1 out_path key c = (res, mevs, wevs)"
    by (cases "materialize sy st1 out_path key c") auto
  have "main sy st command
          = run_cached sy st (program, inp, file_type, out_path, args, mt, reduced)"
    using assms(1) ne by (simp add: main_def)
  also have "\<dots> = finish ([CheckOutput ([program, ''-E'', inp] @ mt @ reduced)] @ evs)
                      (materialize sy st1 out_path key c)"
    using assms(2-6) by (simp add: run_cached_def Let_def)
  finally have "trace (main sy st command)
                  = [CheckOutput ([program, ''-E'', inp] @ mt @ reduced)] @ evs @ mevs"
    using m by (simp add: finish_def)
  then show ?thesis
    using get_events [OF assms(6)] materialize_events [OF m]
    by (simp add: argvs_append compile_cmds_append)
qed

text \<open>
  When, moreover, the output file can be opened and the cached bytes decompress, they
  are written to the output path and \<open>main\<close> returns 0.
\<close>

lemma hit_materializes:
  assumes "parse_arguments sy st command
             = Inr (Some (program, inp, file_type, out_path, args, mt, reduced))"
    and "check_output sy st ([program, ''-E'', inp] @ mt @ reduced) = Inr (pp, st1)"
    and "pp \<noteq> []"
    and "hash_key sy st1 program args pp = Inr key"
    and "''SCCACHE_RECACHE'' \<notin> dom (environ sy)"
    and "environ sy ''SCCACHE_BUCKET'' = Some name"
    and "name \<noteq> []"
    and "urlopen sy (bucket_url name key) = Body d"
    and "d \<noteq> []"
    and "can_open_wb sy st1 out_path"
    and "gunzip sy d = Some obj"
  shows "main sy st command
           = \<lparr>outcome = Return 0,
              trace = [CheckOutput ([program, ''-E'', inp] @ mt @ reduced),
                       UrlOpen (bucket_url name key), OpenWrite out_path,
                       Write out_path obj, Diag (UsingCache key out_path (length d))],
              worker = []\<rparr>"
proof -
  have ne: "command \<noteq> []" using assms(1) by (auto simp: parse_arguments_def)
  have g: "get sy (Bucket_init sy) key
             = (Some \<lparr>c_data = Some d, c_obj = None\<rparr>, \<lparr>b_name = name, b_status = 200\<rparr>,
                [UrlOpen (bucket_url name key)])"
    using assms(6-9) by (simp add: get_def Bucket_init_def CacheData_init_def Let_def)
  have m: "materialize sy st1 out_path key \<lparr>c_data = Some d, c_obj = None\<rparr>
             = (Return 0,
                [OpenWrite out_path, Write out_path obj,
                 Diag (UsingCache key out_path (length d))], [])"
    using assms(9-11)
    by (simp add: materialize_def dump_def dump_body_def read_gzip_def data_def)
  have "main sy st command
          = run_cached sy st (program, inp, file_type, out_path, args, mt, reduced)"
    using assms(1) ne by (simp add: main_def)
  also have "\<dots> = finish ([CheckOutput ([program, ''-E'', inp] @ mt @ reduced)]
                        @ [UrlOpen (bucket_url name key)])
                      (materialize sy st1 out_path key \<lparr>c_data = Some d, c_obj = None\<rparr>)"
    using assms(2-5) g by (simp add: run_cached_def Let_def)
  finally show ?thesis by (simp add: m finish_def)
qed

text \<open>Scenario D of the specification: against a populated store the run hits the cache,
  writes the stored object and returns 0.\<close>

lemma hit_populated_store:
  "main (demo_sys [''SCCACHE_BUCKET'' \<mapsto> ''b''] ''int x;'' (Body ''GZOBJ'')) (demo_fs ''ELF'')
        [''cc'', ''-c'', ''a.c'', ''-o'', ''a.o'']
     = \<lparr>outcome = Return 0,
        trace = [CheckOutput [''/usr/bin/cc'', ''-E'', ''a.c''],
                 UrlOpen ''http://b.s3.amazonaws.com/d/a/3/da39a3ee5e6b4b0d3255bfef95601890afd80709'',
                 OpenWrite ''a.o'', Write ''a.o'' ''OBJ'',
                 Diag (UsingCache ''d/a/3/da39a3ee5e6b4b0d3255bfef95601890afd80709'' ''a.o'' 5)],
        worker = []\<rparr>"
  by (simp add: demo_parse_defs demo_run_defs)

text \<open>
  Claim C9. If preprocessing succeeds and prints nothing, no key is computed and the
  store is not asked; when the code generator then exits 0 and the output file exists,
  the call of \<open>cache_store\<close> reads the name \<open>key\<close>, which was never bound, and the run
  ends with a \<open>NameError\<close> (an \<open>UnboundLocalError\<close>) instead of returning 0.
\<close>

theorem empty_preprocess_name_error:
  assumes "parse_arguments sy st command
             = Inr (Some (program, inp, file_type, out_path, args, mt, reduced))"
    and "check_output sy st ([program, ''-E'', inp] @ mt @ reduced) = Inr ([], st1)"
    and "exec sy ([program, ''-c'', ''-x'', file_type, ''-'', ''-o'', out_path] @ reduced)
           (Some []) st1 = Inr (0, out, st2)"
    and "out_path \<in> dom st2"
  shows "main sy st command
           = \<lparr>outcome = Raise NameError,
              trace = [CheckOutput ([program, ''-E'', inp] @ mt @ reduced),
                       Popen ([program, ''-c'', ''-x'', file_type, ''-'', ''-o'', out_path]
                              @ reduced) []],
              worker = []\<rparr>"
proof -
  have ne: "command \<noteq> []" using assms(1) by (auto simp: parse_arguments_def)
  have "main sy st command
          = run_cached sy st (program, inp, file_type, out_path, args, mt, reduced)"
    using assms(1) ne by (simp add: main_def)
  also have "\<dots> = finish [CheckOutput ([program, ''-E'', inp] @ mt @ reduced)]
                      (compile_store sy st1 program file_type out_path reduced [] None None)"
    using assms(2) by (simp add: run_cached_def Let_def)
  also have "compile_store sy st1 program file_type out_path reduced [] None None
               = (Raise NameError,
                  [Popen ([program, ''-c'', ''-x'', file_type, ''-'', ''-o'', out_path] @ reduced) []],
                  [])"
    using assms(3,4) by (simp add: compile_store_def Let_def)
  finally show ?thesis by (simp add: finish_def)
qed

theorem empty_preprocess_name_error_witness:
  "main (demo_sys [''SCCACHE_BUCKET'' \<mapsto> ''b''] [] (Body ''GZOBJ'')) (demo_fs ''ELF'')
        [''cc'', ''-P'', ''-c'', ''a.c'', ''-o'', ''a.o'']
     = \<lparr>outcome = Raise NameError,
        trace = [CheckOutput [''/usr/bin/cc'', ''-E'', ''a.c'', ''-P''],
                 Popen [''/usr/bin/cc'', ''-c'', ''-x'', ''cpp-output'', ''-'', ''-o'', ''a.o'', ''-P''] []],
        worker = []\<rparr>"
proof -
  let ?sy = "demo_sys [''SCCACHE_BUCKET'' \<mapsto> ''b''] [] (Body ''GZOBJ'')"
  have 1: "parse_arguments ?sy (demo_fs ''ELF'') [''cc'', ''-P'', ''-c'', ''a.c'', ''-o'', ''a.o'']
             = Inr (Some (''/usr/bin/cc'', ''a.c'', ''cpp-output'', ''a.o'',
                          [''-P'', ''-c'', ''a.c'', ''-o'', ''a.o''], [], [''-P'']))"
    by (simp add: demo_parse_defs)
  have 2: "check_output ?sy (demo_fs ''ELF'') ([''/usr/bin/cc'', ''-E'', ''a.c''] @ [] @ [''-P''])
             = Inr ([], demo_fs ''ELF'')"
    by (simp add: check_output_def demo_sys_def demo_exec_def)
  have 3: "exec ?sy ([''/usr/bin/cc'', ''-c'', ''-x'', ''cpp-output'', ''-'', ''-o'', ''a.o''] @ [''-P''])
             (Some []) (demo_fs ''ELF'')
           = Inr (0, [], (demo_fs ''ELF'')(''a.o'' \<mapsto> \<lparr>content = ''OBJ'', mtime = 3\<rparr>))"
    by (simp add: demo_sys_def demo_exec_def)
  have 4: "''a.o'' \<in> dom ((demo_fs ''ELF'')(''a.o'' \<mapsto> \<lparr>content = ''OBJ'', mtime = 3\<rparr>))"
    by simp
  from empty_preprocess_name_error [OF 1 2 3 4] show ?thesis by simp
qed

text \<open>
  Claim C3. A run in which compilation exits 0 and the output file exists is meant to
  return 0 whatever the store does. On the concrete system with no store configured and
  a preprocessor that prints nothing, the code generator exits 0 and writes \<open>a.o\<close>, and
  \<open>main\<close> ends with a \<open>NameError\<close>: the name \<open>key\<close> is not bound when the store step
  needs it.
\<close>

theorem store_step_name_error:
  "exec (demo_sys Map.empty [] URLError)
        [''/usr/bin/cc'', ''-c'', ''-x'', ''cpp-output'', ''-'', ''-o'', ''a.o''] (Some [])
        (demo_fs ''ELF'')
     = Inr (0, [], (demo_fs ''ELF'')(''a.o'' \<mapsto> \<lparr>content = ''OBJ'', mtime = 3\<rparr>)) \<and>
   main (demo_sys Map.empty [] URLError) (demo_fs ''ELF'') [''cc'', ''-c'', ''a.c'', ''-o'', ''a.o'']
     = \<lparr>outcome = Raise NameError,
        trace = [CheckOutput [''/usr/bin/cc'', ''-E'', ''a.c''],
                 Popen [''/usr/bin/cc'', ''-c'', ''-x'', ''cpp-output'', ''-'', ''-o'', ''a.o''] []],
        worker = []\<rparr>"
  by (simp add: demo_parse_defs demo_run_defs)

text \<open>
  What does hold of the store step: once the code generator has exited 0 and left an
  output file that is not empty, and a key is bound, \<open>main\<close> returns 0 for every system,
  that is, whatever the bucket configuration and whatever \<open>Bucket.put\<close> does.
\<close>

lemma store_result_irrelevant:
  assumes "exec sy ([program, ''-c'', ''-x'', file_type, ''-'', ''-o'', out_path] @ reduced)
             (Some pp) st = Inr (0, out, st')"
    and "st' out_path = Some f"
    and "content f \<noteq> []"
  shows "fst (compile_store sy st program file_type out_path reduced pp (Some key) bucket)
           = Return 0"
  using assms
  by (auto simp: compile_store_def cache_store_def do_store_def from_object_def
      CacheData_init_def data_def Let_def split: sum.splits prod.splits)

text \<open>Scenario A of the specification: no store is configured, the lookup misses, the
  compiler runs, the worker fails to store, and the exit code is 0.\<close>

lemma miss_no_store_configured:
  "main (demo_sys Map.empty ''int x;'' URLError) (demo_fs ''ELF'') [''cc'', ''-c'', ''a.c'', ''-o'', ''a.o'']
     = \<lparr>outcome = Return 0,
        trace = [CheckOutput [''/usr/bin/cc'', ''-E'', ''a.c''],
                 Popen [''/usr/bin/cc'', ''-c'', ''-x'', ''cpp-output'', ''-'', ''-o'', ''a.o''] ''int x;'',
                 Spawn ''a.o'' ''d/a/3/da39a3ee5e6b4b0d3255bfef95601890afd80709'',
                 Diag (Caching ''a.o'' ''d/a/3/da39a3ee5e6b4b0d3255bfef95601890afd80709'' (Some (- 1)))],
        worker = [Diag (FailureCaching ''a.o'' ''d/a/3/da39a3ee5e6b4b0d3255bfef95601890afd80709'' (- 1))]\<rparr>"
  by (simp add: demo_parse_defs demo_run_defs)

end
